theory Spec2Isabelle
  imports
    Complex_Main
    "HOL-Library.AList"
    "HOL-Library.Char_ord"
    "HOL-Library.List_Lexorder"
    "HOL-Library.Log_Nat"
    "HOL-Library.Multiset"
begin

section \<open>Python values and exceptions\<close>

text \<open>
  A Python \<open>str\<close> is a \<open>string\<close>: one \<open>char\<close> per character, for the
  characters with a code point below 256. Exceptions are values of \<open>exn\<close>; a function
  that can raise returns \<open>exn + 'a\<close>.
\<close>

datatype exn =
  FileNotFoundError | IOError | KeyError | ValueError | OverflowError | ZeroDivisionError
  | AttributeError | TypeError | YAMLError | EOFError

definition bind_exn :: "exn + 'a \<Rightarrow> ('a \<Rightarrow> exn + 'b) \<Rightarrow> exn + 'b" where
  "bind_exn m f = (case m of Inl e \<Rightarrow> Inl e | Inr x \<Rightarrow> f x)"

text \<open>\<open>str.isspace\<close> for one character (also what \<open>\s\<close> matches in \<open>re\<close>).\<close>

definition isspace :: "char \<Rightarrow> bool" where
  "isspace c = (let n = (of_char c :: nat) in
     (9 \<le> n \<and> n \<le> 13) \<or> (28 \<le> n \<and> n \<le> 32) \<or> n = 133 \<or> n = 160)"

definition lstrip :: "string \<Rightarrow> string" where
  "lstrip s = dropWhile isspace s"

definition rstrip :: "string \<Rightarrow> string" where
  "rstrip s = rev (dropWhile isspace (rev s))"

definition strip :: "string \<Rightarrow> string" where
  "strip s = rstrip (lstrip s)"

text \<open>\<open>line.lstrip(' ')\<close> removes leading blanks only.\<close>

definition lstrip_blank :: "string \<Rightarrow> string" where
  "lstrip_blank s = dropWhile (\<lambda>c. c = CHR '' '') s"

section \<open>Python numbers\<close>

subsection \<open>Floats\<close>

text \<open>
  A Python \<open>float\<close> is an IEEE 754 binary64 value: a finite value, kept as the rational
  it denotes, an infinity or a NaN. The two zeros are one value here (the program never
  looks at the sign of a zero). Every arithmetic operation computes the exact result
  and rounds it to the nearest binary64 value, ties to even: \<open>fround\<close>.

  \<open>expo q\<close> is the binary exponent of a positive rational, the \<open>e\<close> with
  \<open>2^e \<le> q < 2^(e+1)\<close>. A value with exponent \<open>e\<close> is rounded to a multiple of
  \<open>2^(e-52)\<close> (53 significant bits); below \<open>2^(-1022)\<close> the spacing stays at
  \<open>2^(-1074)\<close> (subnormal numbers); a rounded magnitude with exponent 1024 or more
  overflows to an infinity.
\<close>

datatype pyfloat = Finite rat | PosInf | NegInf | NaN

definition round_half_even :: "rat \<Rightarrow> int" where
  "round_half_even x =
     (let f = \<lfloor>x\<rfloor>; r = x - of_int f in
      if r < 1 / 2 then f else if 1 / 2 < r then f + 1 else if even f then f else f + 1)"

definition expo :: "rat \<Rightarrow> int" where
  "expo q = (case quotient_of q of (a, b) \<Rightarrow>
     (let d = bitlen a - bitlen b in if 2 powi d \<le> q then d else d - 1))"

definition fround_mag :: "rat \<Rightarrow> rat" where
  "fround_mag q =
     (let u = 2 powi (max (expo q) (- 1022) - 52) in of_int (round_half_even (q / u)) * u)"

definition fround :: "rat \<Rightarrow> pyfloat" where
  "fround q =
     (if q = 0 then Finite 0
      else if 0 < q then (let r = fround_mag q in if 1024 \<le> expo r then PosInf else Finite r)
      else (let r = fround_mag (- q) in if 1024 \<le> expo r then NegInf else Finite (- r)))"

fun fneg :: "pyfloat \<Rightarrow> pyfloat" where
  "fneg (Finite a) = Finite (- a)"
| "fneg PosInf = NegInf"
| "fneg NegInf = PosInf"
| "fneg NaN = NaN"

fun fadd :: "pyfloat \<Rightarrow> pyfloat \<Rightarrow> pyfloat" where
  "fadd (Finite a) (Finite b) = fround (a + b)"
| "fadd NaN _ = NaN"
| "fadd _ NaN = NaN"
| "fadd PosInf NegInf = NaN"
| "fadd NegInf PosInf = NaN"
| "fadd PosInf _ = PosInf"
| "fadd _ PosInf = PosInf"
| "fadd NegInf _ = NegInf"
| "fadd _ NegInf = NegInf"

definition fsub :: "pyfloat \<Rightarrow> pyfloat \<Rightarrow> pyfloat" where
  "fsub x y = fadd x (fneg y)"

fun fsign :: "pyfloat \<Rightarrow> int" where
  "fsign (Finite a) = (if 0 < a then 1 else if a < 0 then - 1 else 0)"
| "fsign PosInf = 1"
| "fsign NegInf = - 1"
| "fsign NaN = 0"

definition inf_of_sign :: "int \<Rightarrow> pyfloat" where
  "inf_of_sign s = (if s = 0 then NaN else if 0 < s then PosInf else NegInf)"

fun fmul :: "pyfloat \<Rightarrow> pyfloat \<Rightarrow> pyfloat" where
  "fmul (Finite a) (Finite b) = fround (a * b)"
| "fmul NaN _ = NaN"
| "fmul _ NaN = NaN"
| "fmul x y = inf_of_sign (fsign x * fsign y)"

text \<open>Float division raises \<open>ZeroDivisionError\<close> on a zero divisor, whatever the dividend.\<close>

fun fdiv :: "pyfloat \<Rightarrow> pyfloat \<Rightarrow> exn + pyfloat" where
  "fdiv x (Finite b) =
     (if b = 0 then Inl ZeroDivisionError
      else Inr (case x of Finite a \<Rightarrow> fround (a / b) | NaN \<Rightarrow> NaN
                | _ \<Rightarrow> inf_of_sign (fsign x * fsign (Finite b))))"
| "fdiv x NaN = Inr NaN"
| "fdiv (Finite a) _ = Inr (Finite 0)"
| "fdiv _ _ = Inr NaN"

fun fle :: "pyfloat \<Rightarrow> pyfloat \<Rightarrow> bool" where
  "fle (Finite a) (Finite b) = (a \<le> b)"
| "fle NaN _ = False"
| "fle _ NaN = False"
| "fle NegInf _ = True"
| "fle _ PosInf = True"
| "fle _ _ = False"

fun flt :: "pyfloat \<Rightarrow> pyfloat \<Rightarrow> bool" where
  "flt (Finite a) (Finite b) = (a < b)"
| "flt NaN _ = False"
| "flt _ NaN = False"
| "flt PosInf _ = False"
| "flt _ NegInf = False"
| "flt _ _ = True"

subsection \<open>Integers and floats together\<close>

text \<open>
  A number is an \<open>int\<close> (unbounded) or a \<open>float\<close>. An operation on two integers is
  exact; a mixed one converts the integer to a float (correctly rounded,
  \<open>OverflowError\<close> when it is too large) and works on floats. A comparison between an
  integer and a float compares the exact values.
\<close>

datatype num = NInt int | NFloat pyfloat

fun to_float :: "num \<Rightarrow> exn + pyfloat" where
  "to_float (NInt n) =
     (case fround (of_int n) of Finite q \<Rightarrow> Inr (Finite q) | _ \<Rightarrow> Inl OverflowError)"
| "to_float (NFloat x) = Inr x"

definition float_op :: "(pyfloat \<Rightarrow> pyfloat \<Rightarrow> pyfloat) \<Rightarrow> num \<Rightarrow> num \<Rightarrow> exn + num" where
  "float_op f a b =
     bind_exn (to_float a) (\<lambda>x. bind_exn (to_float b) (\<lambda>y. Inr (NFloat (f x y))))"

fun num_add :: "num \<Rightarrow> num \<Rightarrow> exn + num" where
  "num_add (NInt a) (NInt b) = Inr (NInt (a + b))"
| "num_add a b = float_op fadd a b"

fun num_sub :: "num \<Rightarrow> num \<Rightarrow> exn + num" where
  "num_sub (NInt a) (NInt b) = Inr (NInt (a - b))"
| "num_sub a b = float_op fsub a b"

fun num_mul :: "num \<Rightarrow> num \<Rightarrow> exn + num" where
  "num_mul (NInt a) (NInt b) = Inr (NInt (a * b))"
| "num_mul a b = float_op fmul a b"

text \<open>The operator \<open>/\<close>: the quotient of two integers is the correctly rounded float.\<close>

fun num_truediv :: "num \<Rightarrow> num \<Rightarrow> exn + num" where
  "num_truediv (NInt a) (NInt b) =
     (if b = 0 then Inl ZeroDivisionError
      else (case fround (of_int a / of_int b) of
              Finite q \<Rightarrow> Inr (NFloat (Finite q)) | _ \<Rightarrow> Inl OverflowError))"
| "num_truediv a b =
     bind_exn (to_float a) (\<lambda>x. bind_exn (to_float b) (\<lambda>y.
       bind_exn (fdiv x y) (\<lambda>z. Inr (NFloat z))))"

fun exact :: "num \<Rightarrow> pyfloat" where
  "exact (NInt n) = Finite (of_int n)"
| "exact (NFloat x) = x"

definition num_le :: "num \<Rightarrow> num \<Rightarrow> bool" where
  "num_le a b = fle (exact a) (exact b)"

definition num_lt :: "num \<Rightarrow> num \<Rightarrow> bool" where
  "num_lt a b = flt (exact a) (exact b)"

text \<open>\<open>int(x)\<close> on a number: a float is truncated towards zero.\<close>

fun int_of_num :: "num \<Rightarrow> exn + int" where
  "int_of_num (NInt n) = Inr n"
| "int_of_num (NFloat (Finite q)) = Inr (if 0 \<le> q then \<lfloor>q\<rfloor> else \<lceil>q\<rceil>)"
| "int_of_num (NFloat NaN) = Inl ValueError"
| "int_of_num (NFloat _) = Inl OverflowError"

text \<open>A float literal of the source, such as \<open>4.5\<close> or \<open>0.299\<close>: the nearest float.\<close>

definition float_lit :: "rat \<Rightarrow> num" where
  "float_lit q = NFloat (fround q)"

subsection \<open>Values loaded from YAML\<close>

datatype pyval =
  PNone | PBool bool | PInt int | PFloat pyfloat | PStr string
  | PList "pyval list" | PDict "(pyval \<times> pyval) list"

text \<open>
  \<open>isinstance(v, (int, float))\<close>, with the number when it holds. \<open>bool\<close> is a subclass
  of \<open>int\<close>: \<open>True\<close> is 1 and \<open>False\<close> is 0.
\<close>

fun as_number :: "pyval \<Rightarrow> num option" where
  "as_number (PBool b) = Some (NInt (if b then 1 else 0))"
| "as_number (PInt n) = Some (NInt n)"
| "as_number (PFloat x) = Some (NFloat x)"
| "as_number _ = None"

fun py_truthy :: "pyval \<Rightarrow> bool" where
  "py_truthy PNone = False"
| "py_truthy (PBool b) = b"
| "py_truthy (PInt n) = (n \<noteq> 0)"
| "py_truthy (PFloat x) = (x \<noteq> Finite 0)"
| "py_truthy (PStr s) = (s \<noteq> [])"
| "py_truthy (PList xs) = (xs \<noteq> [])"
| "py_truthy (PDict kvs) = (kvs \<noteq> [])"

fun py_len :: "pyval \<Rightarrow> exn + nat" where
  "py_len (PStr s) = Inr (length s)"
| "py_len (PList xs) = Inr (length xs)"
| "py_len (PDict kvs) = Inr (length kvs)"
| "py_len _ = Inl TypeError"

text \<open>\<open>d.get(k)\<close>: only a dictionary has the method.\<close>

fun dict_get :: "pyval \<Rightarrow> pyval \<Rightarrow> exn + pyval" where
  "dict_get (PDict kvs) k = Inr (case map_of kvs k of None \<Rightarrow> PNone | Some v \<Rightarrow> v)"
| "dict_get _ k = Inl AttributeError"

section \<open>The schedule parser (schedule.py)\<close>

text \<open>
  An event is the dictionary \<open>{'artist': ..., 'venue': ...}\<close>. The dictionaries of the
  schedule keep insertion order, and assigning to a key that is present keeps its place:
  they are association lists updated with \<open>AList.update\<close>.
\<close>

record event =
  artist :: string
  venue :: string

type_synonym day_events = "(string \<times> event list) list"
type_synonym schedule = "(string \<times> day_events) list"

text \<open>
  \<open>event_regex = re.compile(r'^(.*)\s\(([^)]+)\)$')\<close>, used with \<open>match\<close> on a
  stripped line. The first group is greedy: the matcher tries the longest prefix first,
  so the split chosen is the rightmost position \<open>i\<close> with a space character at \<open>i\<close>,
  an opening parenthesis at \<open>i + 1\<close>, then at least one character other than a closing
  parenthesis, and a closing parenthesis as the last character. The dot does not match
  a line feed.
\<close>

definition event_split_ok :: "string \<Rightarrow> nat \<Rightarrow> bool" where
  "event_split_ok s i =
     (i + 3 < length s \<and> CHR 0x0A \<notin> set (take i s)
      \<and> isspace (s ! i) \<and> s ! (i + 1) = CHR ''(''
      \<and> CHR '')'' \<notin> set (take (length s - i - 3) (drop (i + 2) s))
      \<and> s ! (length s - 1) = CHR '')'')"

definition event_regex_match :: "string \<Rightarrow> (string \<times> string) option" where
  "event_regex_match s =
     (case filter (event_split_ok s) (rev [0..<length s]) of
        [] \<Rightarrow> None
      | i # _ \<Rightarrow> Some (take i s, take (length s - i - 3) (drop (i + 2) s)))"

text \<open>What the two programs print, one constructor for each \<open>print\<close> of the source.\<close>

datatype message =
  Warning_event_line nat string
  | Error_not_found
  | Error_unexpected exn
  | Info_loading_rankings
  | Info_found_ranked nat
  | Info_no_rankings_file
  | Info_generating
  | Info_success
  | Warning_rankings_not_loaded exn
  | Info_separator
  | Info_artist nat nat string string
  | Info_playing string
  | Info_replaying
  | Info_skipped string
  | Info_invalid_range
  | Info_invalid_number
  | Info_saved string pyval
  | Info_session_complete

record parser_state =
  schedule :: schedule
  current_day :: "string option"
  current_time :: "string option"
  printed :: "message list"

text \<open>Truth value of a variable that holds \<open>None\<close> or a string.\<close>

fun truthy :: "string option \<Rightarrow> bool" where
  "truthy None = False"
| "truthy (Some s) = (s \<noteq> [])"

text \<open>\<open>d[k]\<close> on a dictionary: \<open>KeyError\<close> when the key is absent.\<close>

definition getitem :: "('k \<times> 'v) list \<Rightarrow> 'k \<Rightarrow> exn + 'v" where
  "getitem d k = (case map_of d k of None \<Rightarrow> Inl KeyError | Some v \<Rightarrow> Inr v)"

definition indentation :: "string \<Rightarrow> nat" where
  "indentation line = length line - length (lstrip_blank line)"

text \<open>
  The body of the \<open>for i, line in enumerate(f)\<close> loop. \<open>Inl\<close> is an exception that
  leaves the loop.
\<close>

definition parse_line :: "nat \<Rightarrow> string \<Rightarrow> parser_state \<Rightarrow> exn + parser_state" where
  "parse_line i line st =
     (let stripped_line = strip line in
      if stripped_line = [] then Inr st
      else if indentation line = 0 then
        Inr (st\<lparr>current_day := Some stripped_line,
                schedule := AList.update stripped_line [] (schedule st)\<rparr>)
      else if indentation line = 2 then
        (let st1 = st\<lparr>current_time := Some stripped_line\<rparr> in
         if truthy (current_day st1) then
           (case getitem (schedule st1) (the (current_day st1)) of
              Inl e \<Rightarrow> Inl e
            | Inr day \<Rightarrow>
                Inr (st1\<lparr>schedule := AList.update (the (current_day st1))
                        (AList.update stripped_line [] day) (schedule st1)\<rparr>))
         else Inr st1)
      else if indentation line \<ge> 4 then
        (if truthy (current_day st) \<and> truthy (current_time st) then
           (case event_regex_match stripped_line of
              Some (a, v) \<Rightarrow>
                (case getitem (schedule st) (the (current_day st)) of
                   Inl e \<Rightarrow> Inl e
                 | Inr day \<Rightarrow>
                     (case getitem day (the (current_time st)) of
                        Inl e \<Rightarrow> Inl e
                      | Inr evs \<Rightarrow>
                          Inr (st\<lparr>schedule := AList.update (the (current_day st))
                                  (AList.update (the (current_time st))
                                     (evs @ [\<lparr>artist = strip a, venue = v\<rparr>]) day)
                                  (schedule st)\<rparr>)))
            | None \<Rightarrow>
                Inr (st\<lparr>printed := printed st @ [Warning_event_line (i + 1) stripped_line]\<rparr>))
         else Inr st)
      else Inr st)"

text \<open>The loop: the exception, if any, and the state reached.\<close>

fun parse_lines :: "nat \<Rightarrow> string list \<Rightarrow> parser_state \<Rightarrow> exn option \<times> parser_state" where
  "parse_lines i [] st = (None, st)"
| "parse_lines i (line # rest) st =
     (case parse_line i line st of
        Inl e \<Rightarrow> (Some e, st)
      | Inr st' \<Rightarrow> parse_lines (Suc i) rest st')"

text \<open>
  A file on disk: absent, present but failing on open or read, or present with a content.
  The schedule file is read line by line; its content is the list of its lines.
\<close>

datatype 'a disk_file = Absent | Unreadable | Content 'a

text \<open>
  The ranking store is a YAML document. \<open>yaml.safe_load\<close> and \<open>yaml.dump\<close> belong to
  the PyYAML library: the functions that use them take them as parameters, over any type
  \<open>'doc\<close> of documents. \<open>safe_load\<close> gives the loaded value or raises; \<open>dump\<close> gives
  the text written or raises before anything is written.
\<close>

type_synonym 'doc yaml_safe_load = "'doc \<Rightarrow> exn + pyval"
type_synonym 'doc yaml_dump = "pyval \<Rightarrow> exn + 'doc"

definition initial_state :: parser_state where
  "initial_state = \<lparr>schedule = [], current_day = None, current_time = None, printed = []\<rparr>"

text \<open>The result is the returned value (\<open>None\<close> for the error outcome) and what was printed.\<close>

definition parse_schedule_file :: "string list disk_file \<Rightarrow> schedule option \<times> message list" where
  "parse_schedule_file f =
     (case f of
        Absent \<Rightarrow> (None, [Error_not_found])
      | Unreadable \<Rightarrow> (None, [Error_unexpected IOError])
      | Content ls \<Rightarrow>
          (case parse_lines 0 ls initial_state of
             (None, st) \<Rightarrow> (Some (schedule st), printed st)
           | (Some e, st) \<Rightarrow> (None, printed st @ [Error_unexpected e])))"

section \<open>The rank-to-color mapper (schedule.py)\<close>

text \<open>
  The arithmetic of \<open>get_color_for_rank\<close> up to the three integer channels. The
  operations are those of the source, in its order; an exception raised by one of them
  (an integer too large for a float, \<open>int\<close> of an infinity or a NaN) leaves the function.
\<close>

definition rank_channels :: "num \<Rightarrow> exn + (int \<times> int \<times> int)" where
  "rank_channels rank =
     bind_exn
       (if num_le rank (float_lit (11 / 2)) then
          bind_exn (num_sub rank (NInt 1)) (\<lambda>d.
          bind_exn (num_truediv d (float_lit (9 / 2))) (\<lambda>percent.
          bind_exn (num_sub (NInt 1) percent) (\<lambda>rest.
          bind_exn (num_mul (NInt 255) rest) (\<lambda>red.
          bind_exn (num_mul (NInt 255) percent) (\<lambda>blue.
          Inr (red, NInt 0, blue))))))
        else
          bind_exn (num_sub rank (float_lit (11 / 2))) (\<lambda>d.
          bind_exn (num_truediv d (float_lit (9 / 2))) (\<lambda>percent.
          bind_exn (num_sub (NInt 1) percent) (\<lambda>rest.
          bind_exn (num_mul (NInt 255) rest) (\<lambda>blue.
          bind_exn (num_mul (NInt 255) percent) (\<lambda>green.
          Inr (NInt 0, green, blue)))))))
       (\<lambda>(red, green, blue).
          bind_exn (int_of_num red) (\<lambda>r.
          bind_exn (int_of_num green) (\<lambda>g.
          bind_exn (int_of_num blue) (\<lambda>b. Inr (r, g, b)))))"

text \<open>\<open>(0.299 * red + 0.587 * green + 0.114 * blue) / 255\<close>\<close>

definition luminance :: "int \<Rightarrow> int \<Rightarrow> int \<Rightarrow> exn + num" where
  "luminance red green blue =
     bind_exn (num_mul (float_lit (299 / 1000)) (NInt red)) (\<lambda>x.
     bind_exn (num_mul (float_lit (587 / 1000)) (NInt green)) (\<lambda>y.
     bind_exn (num_add x y) (\<lambda>xy.
     bind_exn (num_mul (float_lit (114 / 1000)) (NInt blue)) (\<lambda>z.
     bind_exn (num_add xy z) (\<lambda>xyz.
     num_truediv xyz (NInt 255))))))"

text \<open>
  The format \<open>{n:02x}\<close>: lowercase hexadecimal, padded with zeros to two characters; a
  negative number has its sign first.
\<close>

definition hexdigit :: "nat \<Rightarrow> char" where
  "hexdigit n = ''0123456789abcdef'' ! n"

fun hex_digits :: "nat \<Rightarrow> string" where
  "hex_digits n = (if n < 16 then [hexdigit n] else hex_digits (n div 16) @ [hexdigit (n mod 16)])"

definition zfill :: "nat \<Rightarrow> string \<Rightarrow> string" where
  "zfill w s = replicate (w - length s) (CHR ''0'') @ s"

definition format_02x :: "int \<Rightarrow> string" where
  "format_02x n =
     (if n < 0 then CHR ''-'' # zfill 1 (hex_digits (nat (- n))) else zfill 2 (hex_digits (nat n)))"

definition get_color_for_rank :: "pyval \<Rightarrow> exn + (string option \<times> string option)" where
  "get_color_for_rank rank =
     (case as_number rank of
        None \<Rightarrow> Inr (None, None)
      | Some r \<Rightarrow>
          bind_exn (rank_channels r) (\<lambda>(red, green, blue).
          bind_exn (luminance red green blue) (\<lambda>lum.
            let text_color = (if num_lt lum (float_lit (1 / 2)) then ''#ffffff'' else ''#000000'');
                background_color = ''#'' @ format_02x red @ format_02x green @ format_02x blue
            in Inr (Some background_color, Some text_color))))"

section \<open>The schedule renderer (schedule.py)\<close>

definition dq :: char where
  "dq = CHR 0x22"

definition nl :: char where
  "nl = CHR 0x0A"

text \<open>The first element of \<open>html_parts\<close>: the document head, up to the title line.\<close>

definition html_head :: string where
  "html_head =
     ''<!DOCTYPE html>'' @ [nl] @
     ''<html lang='' @ [dq] @ ''en'' @ [dq] @ ''>'' @ [nl] @
     ''<head>'' @ [nl] @
     ''    <meta charset='' @ [dq] @ ''UTF-8'' @ [dq] @ ''>'' @ [nl] @
     ''    <meta name='' @ [dq] @ ''viewport'' @ [dq] @ '' content='' @ [dq] @ ''width=device-width, initial-scale=1.0'' @ [dq] @ ''>'' @ [nl] @
     ''    <title>Iceland Airwaves Ranked Schedule</title>'' @ [nl] @
     ''    <style>'' @ [nl] @
     ''        body { font-family: -apple-system, BlinkMacSystemFont, '' @ [dq] @ ''Segoe UI'' @ [dq] @ '', Roboto, Helvetica, Arial, sans-serif; line-height: 1.5; background-color: #fdfdfd; color: #333; margin: 0; padding: 20px; }'' @ [nl] @
     ''        h1 { margin-top: 0; }'' @ [nl] @
     ''        h2 { border-bottom: 2px solid #eee; padding-bottom: 10px; margin-top: 40px; }'' @ [nl] @
     ''        table { border-collapse: collapse; width: 100%; font-size: 14px; margin-bottom: 30px; }'' @ [nl] @
     ''        th, td { border: 1px solid #ddd; padding: 8px; text-align: left; vertical-align: top; }'' @ [nl] @
     ''        thead th { background-color: #f2f2f2; position: sticky; top: 0; z-index: 1; }'' @ [nl] @
     ''        tbody tr:nth-child(even) { background-color: #f9f9f9; }'' @ [nl] @
     ''        td.time-cell { font-weight: bold; width: 60px; }'' @ [nl] @
     ''        .artist-cell { font-weight: bold; display: block; padding: 4px; margin-bottom: 2px; border-radius: 3px; }'' @ [nl] @
     ''        ul { margin: 0; padding: 0; list-style-type: none; }'' @ [nl] @
     ''    </style>'' @ [nl] @
     ''</head>'' @ [nl] @
     ''<body>'' @ [nl] @
     ''    <h1>Iceland Airwaves Ranked Schedule</h1>'' @ [nl]"

fun map_exn :: "('a \<Rightarrow> exn + 'b) \<Rightarrow> 'a list \<Rightarrow> exn + 'b list" where
  "map_exn f [] = Inr []"
| "map_exn f (x # xs) = bind_exn (f x) (\<lambda>y. bind_exn (map_exn f xs) (\<lambda>ys. Inr (y # ys)))"

text \<open>
  \<open>sorted(list({event['venue'] for ...}))\<close>: the distinct venues of the whole schedule,
  in the order of strings (character by character, by code point).
\<close>

definition all_venues :: "schedule \<Rightarrow> string list" where
  "all_venues sch =
     sort (remdups (concat (map (\<lambda>(day, day_events).
       concat (map (\<lambda>(time, time_events). map venue time_events) day_events)) sch)))"

text \<open>
  \<open>int(s)\<close> on a string: surrounding space is dropped, then an optional sign and decimal
  digits, which single underscores may separate. (The limit that recent interpreters put
  on the number of digits is left out.)
\<close>

definition is_digit :: "char \<Rightarrow> bool" where
  "is_digit c = (48 \<le> (of_char c :: nat) \<and> (of_char c :: nat) \<le> 57)"

fun valid_digits :: "string \<Rightarrow> bool" where
  "valid_digits [] = False"
| "valid_digits [c] = is_digit c"
| "valid_digits (c # d # cs) =
     (is_digit c \<and> (if d = CHR ''_'' then valid_digits cs else valid_digits (d # cs)))"

definition digits_value :: "string \<Rightarrow> int" where
  "digits_value s =
     foldl (\<lambda>acc c. 10 * acc + (of_char c - 48)) 0 (filter (\<lambda>c. c \<noteq> CHR ''_'') s)"

definition int_of_str :: "string \<Rightarrow> exn + int" where
  "int_of_str s =
     (let t = strip s;
          (sign, body) = (case t of
             c # r \<Rightarrow> if c = CHR ''-'' then (- 1, r) else if c = CHR ''+'' then (1, r) else (1, t)
           | [] \<Rightarrow> (1, t))
      in if valid_digits body then Inr (sign * digits_value body) else Inl ValueError)"

text \<open>
  \<open>time_sort_key = lambda t: int(t.split(':')[0]) + 24 if int(t.split(':')[0]) < 5
  else int(t.split(':')[0])\<close>
\<close>

definition leading_hour :: "string \<Rightarrow> exn + int" where
  "leading_hour t = int_of_str (takeWhile (\<lambda>c. c \<noteq> CHR '':'') t)"

definition time_sort_key :: "string \<Rightarrow> exn + int" where
  "time_sort_key t =
     bind_exn (leading_hour t) (\<lambda>h.
       if h < 5 then bind_exn (leading_hour t) (\<lambda>h1. Inr (h1 + 24)) else leading_hour t)"

text \<open>The key of a label as a number, for labels that have one.\<close>

definition key_of :: "string \<Rightarrow> int" where
  "key_of t = (case time_sort_key t of Inr k \<Rightarrow> k | Inl e \<Rightarrow> 0)"

text \<open>
  \<open>sorted(xs, key=k)\<close>: the keys are computed first, in order (the first exception
  leaves the call), then the elements are sorted by key; the sort is stable.
\<close>

definition sorted_by_key :: "('a \<Rightarrow> exn + int) \<Rightarrow> 'a list \<Rightarrow> exn + 'a list" where
  "sorted_by_key k xs =
     bind_exn (map_exn k xs) (\<lambda>ks. Inr (map snd (sort_key fst (zip ks xs))))"

text \<open>
  \<open>venue_to_events = {venue: [] for venue in all_venues}\<close>, then every event whose
  venue is a key appends its artist there.
\<close>

definition venue_to_events :: "string list \<Rightarrow> event list \<Rightarrow> (string \<times> string list) list" where
  "venue_to_events venues events_at_time =
     foldl (\<lambda>d ev. case map_of d (venue ev) of
                      None \<Rightarrow> d
                    | Some as \<Rightarrow> AList.update (venue ev) (as @ [artist ev]) d)
       (map (\<lambda>v. (v, [])) venues) events_at_time"

definition style_of :: "string option \<Rightarrow> string option \<Rightarrow> string" where
  "style_of background_color text_color =
     (if truthy background_color then
        ''background-color: '' @ the background_color @ '';''
        @ (if truthy text_color then '' color: '' @ the text_color @ '';'' else [])
      else [])"

text \<open>The body of \<open>for artist in artists\<close>: one part.\<close>

definition artist_item :: "string \<Rightarrow> string \<Rightarrow> string" where
  "artist_item style a =
     ''<li><span class='' @ [dq] @ ''artist-cell'' @ [dq] @ '' style='' @ [dq]
     @ style @ [dq] @ ''>'' @ a @ ''</span></li>''"

definition render_artist :: "pyval \<Rightarrow> string \<Rightarrow> exn + string list" where
  "render_artist rankings a =
     bind_exn (dict_get rankings (PStr a)) (\<lambda>rank.
     bind_exn (get_color_for_rank rank) (\<lambda>(background_color, text_color).
       Inr [artist_item (style_of background_color text_color) a]))"

text \<open>The body of \<open>for venue in all_venues\<close>, given the artists of the venue.\<close>

definition render_cell :: "pyval \<Rightarrow> string list \<Rightarrow> exn + string list" where
  "render_cell rankings artists =
     (if artists \<noteq> [] then
        bind_exn (map_exn (render_artist rankings) artists) (\<lambda>ps.
          Inr ([''<td><ul>''] @ concat ps @ [''</ul></td>'']))
      else Inr [''<td></td>''])"

definition row_cells :: "string list \<Rightarrow> pyval \<Rightarrow> event list \<Rightarrow> exn + string list list" where
  "row_cells venues rankings events_at_time =
     (let d = venue_to_events venues events_at_time in
      map_exn (\<lambda>v. render_cell rankings (case map_of d v of None \<Rightarrow> [] | Some as \<Rightarrow> as)) venues)"

text \<open>The body of \<open>for time in sorted(...)\<close>.\<close>

definition time_cell :: "string \<Rightarrow> string" where
  "time_cell t = ''<tr><td class='' @ [dq] @ ''time-cell'' @ [dq] @ ''>'' @ t @ ''</td>''"

definition render_row :: "string list \<Rightarrow> pyval \<Rightarrow> day_events \<Rightarrow> string \<Rightarrow> exn + string list" where
  "render_row venues rankings day_events t =
     bind_exn (getitem day_events t) (\<lambda>events_at_time.
     bind_exn (row_cells venues rankings events_at_time) (\<lambda>cells.
       Inr ([time_cell t] @ concat cells @ [''</tr>''])))"

definition table_header :: "string list \<Rightarrow> string" where
  "table_header venues =
     ''<table><thead><tr><th>Time</th>''
     @ concat (map (\<lambda>v. ''<th>'' @ v @ ''</th>'') venues) @ ''</tr></thead><tbody>''"

definition day_rows :: "day_events \<Rightarrow> exn + string list" where
  "day_rows day_events = sorted_by_key time_sort_key (map fst day_events)"

text \<open>The body of \<open>for day, day_events in schedule.items()\<close>.\<close>

definition render_day :: "string list \<Rightarrow> pyval \<Rightarrow> string \<times> day_events \<Rightarrow> exn + string list" where
  "render_day venues rankings = (\<lambda>(day, day_events).
     bind_exn (day_rows day_events) (\<lambda>times.
     bind_exn (map_exn (render_row venues rankings day_events) times) (\<lambda>rows.
       Inr ([''<h2>'' @ day @ ''</h2>'', table_header venues] @ concat rows
            @ [''</tbody></table>'']))))"

definition generate_html_parts :: "schedule \<Rightarrow> pyval \<Rightarrow> exn + string list" where
  "generate_html_parts sch rankings =
     bind_exn (map_exn (render_day (all_venues sch) rankings) sch) (\<lambda>days.
       Inr ([html_head] @ concat days @ [''</body></html>'']))"

definition generate_html_table :: "schedule \<Rightarrow> pyval \<Rightarrow> exn + string" where
  "generate_html_table sch rankings =
     bind_exn (generate_html_parts sch rankings) (\<lambda>html_parts. Inr (concat html_parts))"

section \<open>The renderer's entry point (schedule.py)\<close>

text \<open>
  The outcome of a run: what was printed, the HTML file written (if any), and the
  exception that ended the run (if any; nothing in \<open>main\<close> catches it). Writing the
  output file is taken to succeed.
\<close>

record run_result =
  run_printed :: "message list"
  html_file :: "string option"
  raised :: "exn option"

text \<open>
  \<open>rankings = {}\<close>; if the file exists, \<open>rankings = yaml.safe_load(f) or {}\<close> and
  \<open>len(rankings)\<close> is printed.
\<close>

definition main_load_rankings ::
  "'doc yaml_safe_load \<Rightarrow> 'doc disk_file \<Rightarrow> exn + (pyval \<times> message list)" where
  "main_load_rankings yaml_safe_load f =
     (case f of
        Absent \<Rightarrow> Inr (PDict [], [Info_no_rankings_file])
      | Unreadable \<Rightarrow> Inl IOError
      | Content d \<Rightarrow>
          bind_exn (yaml_safe_load d) (\<lambda>v.
            let rankings = (if py_truthy v then v else PDict []) in
            bind_exn (py_len rankings) (\<lambda>n. Inr (rankings, [Info_found_ranked n]))))"

definition main_schedule ::
  "'doc yaml_safe_load \<Rightarrow> string list disk_file \<Rightarrow> 'doc disk_file \<Rightarrow> run_result" where
  "main_schedule yaml_safe_load schedule_file rankings_file =
     (case parse_schedule_file schedule_file of
        (None, out) \<Rightarrow> \<lparr>run_printed = out, html_file = None, raised = None\<rparr>
      | (Some schedule_data, out) \<Rightarrow>
          (case main_load_rankings yaml_safe_load rankings_file of
             Inl e \<Rightarrow>
               \<lparr>run_printed = out @ [Info_loading_rankings], html_file = None, raised = Some e\<rparr>
           | Inr (rankings, out2) \<Rightarrow>
               (case generate_html_table schedule_data rankings of
                  Inl e \<Rightarrow>
                    \<lparr>run_printed = out @ [Info_loading_rankings] @ out2 @ [Info_generating],
                     html_file = None, raised = Some e\<rparr>
                | Inr html_content \<Rightarrow>
                    \<lparr>run_printed = out @ [Info_loading_rankings] @ out2
                        @ [Info_generating, Info_success],
                     html_file = Some html_content, raised = None\<rparr>)))"

section \<open>The ranking store and the ranking session (rank.py)\<close>

text \<open>
  \<open>load_rankings\<close>: the empty dictionary when the file is absent or when opening,
  reading or parsing it raises (with a warning); otherwise what was loaded, or the empty
  dictionary for \<open>None\<close>.
\<close>

definition load_rankings :: "'doc yaml_safe_load \<Rightarrow> 'doc disk_file \<Rightarrow> pyval \<times> message list" where
  "load_rankings yaml_safe_load f =
     (case f of
        Absent \<Rightarrow> (PDict [], [])
      | Unreadable \<Rightarrow> (PDict [], [Warning_rankings_not_loaded IOError])
      | Content d \<Rightarrow>
          (case yaml_safe_load d of
             Inl e \<Rightarrow> (PDict [], [Warning_rankings_not_loaded e])
           | Inr rankings \<Rightarrow> (if rankings \<noteq> PNone then rankings else PDict [], [])))"

text \<open>
  \<open>save_rankings\<close> opens the file for writing, which empties it, and dumps the
  dictionary into it. The result is the exception raised, if any, and the file.
  Opening the file for writing is taken to succeed.
\<close>

definition save_rankings ::
  "'doc yaml_dump \<Rightarrow> 'doc \<Rightarrow> pyval \<Rightarrow> exn option \<times> 'doc disk_file" where
  "save_rankings yaml_dump empty_doc rankings =
     (case yaml_dump rankings of
        Inl e \<Rightarrow> (Some e, Content empty_doc)
      | Inr d \<Rightarrow> (None, Content d))"

record artist_entry =
  name :: string
  country :: string
  youtube_id :: string

text \<open>\<open>str.lower\<close>, for the characters below 256.\<close>

definition lower_char :: "char \<Rightarrow> char" where
  "lower_char c = (let n = (of_char c :: nat) in
     if (65 \<le> n \<and> n \<le> 90) \<or> (192 \<le> n \<and> n \<le> 222 \<and> n \<noteq> 215)
     then char_of (n + 32) else c)"

definition lower :: "string \<Rightarrow> string" where
  "lower s = map lower_char s"

text \<open>
  The state of a session: the dictionary \<open>rankings\<close>, the ranking file, the lines the
  user has still to type, and what was printed so far. Playing a video prints nothing
  and changes nothing of this state.
\<close>

record 'doc session =
  rankings :: pyval
  store :: "'doc disk_file"
  stdin :: "string list"
  session_printed :: "message list"

text \<open>
  The \<open>while True\<close> loop that asks for a ranking. Each turn reads one line; with no
  line left \<open>input\<close> raises \<open>EOFError\<close>. The result is the value of \<open>ranking\<close> at
  the \<open>break\<close> (an integer or the string \<open>'skipped'\<close>), the lines left and the output.
\<close>

fun prompt_ranking ::
  "string \<Rightarrow> string list \<Rightarrow> message list \<Rightarrow> (exn + pyval) \<times> string list \<times> message list" where
  "prompt_ranking artist_name [] out = (Inl EOFError, [], out)"
| "prompt_ranking artist_name (line # rest) out =
     (let rank_input = lower (strip line) in
      if rank_input = [] then prompt_ranking artist_name rest (out @ [Info_replaying])
      else if rank_input = ''s'' then
        (Inr (PStr ''skipped''), rest, out @ [Info_skipped artist_name])
      else
        (case int_of_str rank_input of
           Inr ranking \<Rightarrow>
             if 1 \<le> ranking \<and> ranking \<le> 10 then (Inr (PInt ranking), rest, out)
             else prompt_ranking artist_name rest (out @ [Info_invalid_range])
         | Inl e \<Rightarrow> prompt_ranking artist_name rest (out @ [Info_invalid_number])))"

text \<open>\<open>d[k] = v\<close>: only a dictionary takes a string as a key.\<close>

fun py_setitem :: "pyval \<Rightarrow> pyval \<Rightarrow> pyval \<Rightarrow> exn + pyval" where
  "py_setitem (PDict kvs) k v = Inr (PDict (AList.update k v kvs))"
| "py_setitem _ k v = Inl TypeError"

text \<open>The body of \<open>for i, artist in enumerate(artists_to_rank)\<close>.\<close>

definition rank_artist ::
  "'doc yaml_dump \<Rightarrow> 'doc \<Rightarrow> nat \<Rightarrow> nat \<Rightarrow> artist_entry \<Rightarrow> 'doc session
   \<Rightarrow> exn option \<times> 'doc session" where
  "rank_artist yaml_dump empty_doc i n a s =
     (let out1 = session_printed s
            @ [Info_separator, Info_artist (i + 1) n (name a) (country a),
               Info_playing (youtube_id a)];
          (r, rest, out2) =
            (if youtube_id a = [] then (Inr (PStr ''skipped''), stdin s, out1)
             else prompt_ranking (name a) (stdin s) out1);
          s1 = s\<lparr>stdin := rest, session_printed := out2\<rparr>
      in case r of
           Inl e \<Rightarrow> (Some e, s1)
         | Inr ranking \<Rightarrow>
             if ranking \<noteq> PStr ''skipped'' then
               (case py_setitem (rankings s1) (PStr (name a)) ranking of
                  Inl e \<Rightarrow> (Some e, s1)
                | Inr rankings' \<Rightarrow>
                    (case save_rankings yaml_dump empty_doc rankings' of
                       (Some e, f) \<Rightarrow> (Some e, s1\<lparr>rankings := rankings', store := f\<rparr>)
                     | (None, f) \<Rightarrow>
                         (None, s1\<lparr>rankings := rankings', store := f,
                                  session_printed := out2 @ [Info_saved (name a) ranking]\<rparr>)))
             else (None, s1))"

text \<open>
  The loop over \<open>artists_to_rank\<close> (the artists of the list not yet in \<open>rankings\<close>,
  shuffled), from index \<open>i\<close>; an exception ends it.
\<close>

fun rank_artists ::
  "'doc yaml_dump \<Rightarrow> 'doc \<Rightarrow> nat \<Rightarrow> nat \<Rightarrow> artist_entry list \<Rightarrow> 'doc session
   \<Rightarrow> exn option \<times> 'doc session" where
  "rank_artists yaml_dump empty_doc i n [] s = (None, s)"
| "rank_artists yaml_dump empty_doc i n (a # rest) s =
     (case rank_artist yaml_dump empty_doc i n a s of
        (Some e, s') \<Rightarrow> (Some e, s')
      | (None, s') \<Rightarrow> rank_artists yaml_dump empty_doc (Suc i) n rest s')"

text \<open>
  Two predicates to state properties of the store: a dictionary from strings to integers,
  and a list of entries each of which is an entry of \<open>old\<close> or an integer rank from 1
  to 10.
\<close>

definition str_int_dict :: "(pyval \<times> pyval) list \<Rightarrow> bool" where
  "str_int_dict kvs =
     list_all (\<lambda>(k, v). (case k of PStr s \<Rightarrow> True | _ \<Rightarrow> False)
                        \<and> (case v of PInt n \<Rightarrow> True | _ \<Rightarrow> False)) kvs"

definition ranked_entry :: "(pyval \<times> pyval) list \<Rightarrow> pyval \<times> pyval \<Rightarrow> bool" where
  "ranked_entry old = (\<lambda>(k, v).
     (k, v) \<in> set old \<or> (case v of PInt n \<Rightarrow> 1 \<le> n \<and> n \<le> 10 | _ \<Rightarrow> False))"

text \<open>
  What the ranking file can hold after a session that started with the file \<open>f0\<close> and
  the entries \<open>old\<close>: still \<open>f0\<close>, or what \<open>save_rankings\<close> leaves for a
  dictionary of such entries.
\<close>

definition store_ok ::
  "'doc yaml_dump \<Rightarrow> 'doc \<Rightarrow> (pyval \<times> pyval) list \<Rightarrow> 'doc disk_file \<Rightarrow> 'doc disk_file
   \<Rightarrow> bool" where
  "store_ok yaml_dump empty_doc old f0 f =
     (f = f0 \<or> (\<exists>saved. list_all (ranked_entry old) saved
        \<and> f = snd (save_rankings yaml_dump empty_doc (PDict saved))))"

definition ranking_session ::
  "'doc yaml_dump \<Rightarrow> 'doc \<Rightarrow> artist_entry list \<Rightarrow> 'doc session \<Rightarrow> exn option \<times> 'doc session" where
  "ranking_session yaml_dump empty_doc artists_to_rank s =
     (case rank_artists yaml_dump empty_doc 0 (length artists_to_rank) artists_to_rank s of
        (Some e, s') \<Rightarrow> (Some e, s')
      | (None, s') \<Rightarrow>
          (None, s'\<lparr>session_printed := session_printed s' @ [Info_session_complete]\<rparr>))"

section \<open>Basic facts about exceptions and loops\<close>

lemma bind_exn_Inl [simp]: "bind_exn (Inl e) f = Inl e"
  by (simp add: bind_exn_def)

lemma bind_exn_Inr [simp]: "bind_exn (Inr x) f = f x"
  by (simp add: bind_exn_def)

lemma bind_exn_eq_Inr: "bind_exn m f = Inr y \<longleftrightarrow> (\<exists>x. m = Inr x \<and> f x = Inr y)"
  by (cases m) simp_all

lemma map_exn_eq_Inr: "map_exn f xs = Inr ys \<longleftrightarrow> list_all2 (\<lambda>x y. f x = Inr y) xs ys"
proof (induction xs arbitrary: ys)
  case Nil
  show ?case by auto
next
  case (Cons x xs)
  show ?case by (cases ys) (auto simp add: bind_exn_eq_Inr Cons.IH)
qed

lemma map_exn_total:
  assumes "\<forall>x \<in> set xs. \<exists>y. f x = Inr y"
  shows "\<exists>ys. map_exn f xs = Inr ys"
  using assms by (induction xs) auto

section \<open>Properties of the schedule parser\<close>

text \<open>
  C1. The claim: a line at depth 0 opens a new day with an empty mapping and resets the
  current time slot, so an event line that follows a day header directly is attached to
  nothing. The code opens the day but keeps \<open>current_time\<close>: with the time label of the
  previous day still set, the event line looks that label up in the new, empty day,
  the lookup raises \<open>KeyError\<close>, and the parser prints the unexpected-error message and
  returns \<open>None\<close>.
\<close>

theorem day_header_keeps_stale_time:
  "parse_schedule_file
     (Content [''Fri\<newline>'', ''  20:00\<newline>'', ''Sat\<newline>'', ''    Band (Hall)\<newline>''])
   = (None, [Error_unexpected KeyError])"
  by code_simp

text \<open>
  C2, as the claim states it, fails: an event line under a day with no time slot yet is
  skipped without any warning.
\<close>

theorem orphan_event_line_no_warning:
  "parse_schedule_file (Content [''Fri\<newline>'', ''    Band (Hall)\<newline>''])
   = (Some [(''Fri'', [])], [])"
  by code_simp

text \<open>
  C2, amended. A non-blank line at depth 4 or more that does not match the event pattern
  while a day and a time label are set is skipped with exactly one warning, which carries
  its line number; such a line met while no day or no time label is set is skipped with
  no warning. In both cases the schedule and the two pointers are unchanged and the loop
  goes on with the remaining lines.
\<close>

theorem event_line_skipped:
  assumes "strip line \<noteq> []" and "4 \<le> indentation line"
    and "truthy (current_day st) \<and> truthy (current_time st)
         \<longrightarrow> event_regex_match (strip line) = None"
  shows "parse_lines i (line # rest) st =
           parse_lines (Suc i) rest
             (if truthy (current_day st) \<and> truthy (current_time st)
              then st\<lparr>printed := printed st @ [Warning_event_line (i + 1) (strip line)]\<rparr>
              else st)"
  using assms by (simp add: parse_line_def Let_def)

theorem event_line_skipped_witness:
  "parse_lines 2 [''    Band A\<newline>'', ''    Band B (Hall)\<newline>'']
     \<lparr>schedule = [(''Fri'', [(''20:00'', [])])], current_day = Some ''Fri'',
      current_time = Some ''20:00'', printed = []\<rparr>
   = (None,
      \<lparr>schedule = [(''Fri'', [(''20:00'', [\<lparr>artist = ''Band B'', venue = ''Hall''\<rparr>])])],
       current_day = Some ''Fri'', current_time = Some ''20:00'',
       printed = [Warning_event_line 3 ''Band A'']\<rparr>)"
proof -
  let ?line = "''    Band A\<newline>''"
  let ?st = "\<lparr>schedule = [(''Fri'', [(''20:00'', [])])], current_day = Some ''Fri'',
      current_time = Some ''20:00'', printed = []\<rparr>"
  have h1: "strip ?line \<noteq> []" by code_simp
  have h2: "4 \<le> indentation ?line" by code_simp
  have h3: "truthy (current_day ?st) \<and> truthy (current_time ?st)
         \<longrightarrow> event_regex_match (strip ?line) = None" by code_simp
  have s: "strip ?line = ''Band A''" by code_simp
  have r: "parse_lines 3 [''    Band B (Hall)\<newline>'']
     \<lparr>schedule = [(''Fri'', [(''20:00'', [])])], current_day = Some ''Fri'',
      current_time = Some ''20:00'', printed = [Warning_event_line 3 ''Band A'']\<rparr>
   = (None,
      \<lparr>schedule = [(''Fri'', [(''20:00'', [\<lparr>artist = ''Band B'', venue = ''Hall''\<rparr>])])],
       current_day = Some ''Fri'', current_time = Some ''20:00'',
       printed = [Warning_event_line 3 ''Band A'']\<rparr>)" by code_simp
  show ?thesis
    using event_line_skipped [OF h1 h2 h3, of 2 "[''    Band B (Hall)\<newline>'']"] s r
    by (simp add: numeral_3_eq_3)
qed

section \<open>Properties of the rank-to-color mapper\<close>

text \<open>
  C10. For \<open>None\<close> and for every value that is not a number (a string, a list, a
  dictionary) the mapper returns the pair \<open>(None, None)\<close>; it does not raise. (A
  \<open>bool\<close> is an \<open>int\<close> for \<open>isinstance\<close>, hence a number.)
\<close>

theorem get_color_for_rank_not_a_number:
  "get_color_for_rank PNone = Inr (None, None)
   \<and> get_color_for_rank (PStr s) = Inr (None, None)
   \<and> get_color_for_rank (PList xs) = Inr (None, None)
   \<and> get_color_for_rank (PDict kvs) = Inr (None, None)"
  by (simp add: get_color_for_rank_def)

section \<open>Properties of the renderer\<close>

lemma artist_item_inject: "artist_item s a = artist_item s' a \<longleftrightarrow> s = s'"
  by (simp add: artist_item_def)

lemma get_color_for_rank_cases:
  assumes "get_color_for_rank rank = Inr (bg, tc)"
  shows "(as_number rank = None \<and> bg = None \<and> tc = None)
       \<or> (\<exists>n b t. as_number rank = Some n \<and> bg = Some (CHR ''#'' # b) \<and> tc = Some t
            \<and> (t = ''#ffffff'' \<or> t = ''#000000''))"
  using assms
  by (cases "as_number rank")
     (auto simp add: get_color_for_rank_def bind_exn_eq_Inr Let_def split: prod.splits if_splits)

text \<open>
  C3, as the claim states it, fails: the element of an artist with no rank still carries
  a style attribute, an empty one.
\<close>

theorem unranked_artist_has_style_attribute:
  "render_artist (PDict []) ''Band A''
   = Inr [''<li><span class='' @ [CHR 0x22] @ ''artist-cell'' @ [CHR 0x22] @ '' style=''
          @ [CHR 0x22, CHR 0x22] @ ''>Band A</span></li>'']"
  by (simp add: render_artist_def get_color_for_rank_def artist_item_def style_of_def dq_def)

text \<open>
  C3, amended. For an artist absent from the ranking dictionary the element is rendered
  with an empty style attribute. A style attribute that is not empty appears only when
  the dictionary holds a number for the artist, and then it is the background color
  followed by the text color that the mapper returns for that number.
\<close>

theorem artist_style:
  "(map_of kvs (PStr a) = None \<longrightarrow> render_artist (PDict kvs) a = Inr [artist_item [] a])
   \<and> (\<forall>style. render_artist (PDict kvs) a = Inr [artist_item style a] \<and> style \<noteq> [] \<longrightarrow>
         (\<exists>rank n bg tc. map_of kvs (PStr a) = Some rank \<and> as_number rank = Some n
            \<and> get_color_for_rank rank = Inr (Some bg, Some tc)
            \<and> style = ''background-color: '' @ bg @ ''; color: '' @ tc @ '';''))"
proof (intro conjI impI allI)
  assume "map_of kvs (PStr a) = None"
  then show "render_artist (PDict kvs) a = Inr [artist_item [] a]"
    by (simp add: render_artist_def get_color_for_rank_def style_of_def)
next
  fix style
  assume a: "render_artist (PDict kvs) a = Inr [artist_item style a] \<and> style \<noteq> []"
  define rank where "rank = (case map_of kvs (PStr a) of None \<Rightarrow> PNone | Some v \<Rightarrow> v)"
  from a obtain bg tc where c: "get_color_for_rank rank = Inr (bg, tc)"
    and st: "style = style_of bg tc"
    by (auto simp add: render_artist_def bind_exn_eq_Inr rank_def artist_item_inject)
  from a st have ne: "style_of bg tc \<noteq> []" by simp
  from get_color_for_rank_cases [OF c] ne obtain n b t
    where n: "as_number rank = Some n" and bg: "bg = Some (CHR ''#'' # b)" and tc: "tc = Some t"
      and t: "t = ''#ffffff'' \<or> t = ''#000000''"
    by (auto simp add: style_of_def)
  from n have "map_of kvs (PStr a) = Some rank"
    by (cases "map_of kvs (PStr a)") (simp_all add: rank_def)
  moreover have "style = ''background-color: '' @ (CHR ''#'' # b) @ ''; color: '' @ t @ '';''"
    using st bg tc t by (auto simp add: style_of_def)
  ultimately show "\<exists>rank n bg tc. map_of kvs (PStr a) = Some rank \<and> as_number rank = Some n
            \<and> get_color_for_rank rank = Inr (Some bg, Some tc)
            \<and> style = ''background-color: '' @ bg @ ''; color: '' @ tc @ '';''"
    using n c bg tc by blast
qed

theorem artist_style_witness:
  "render_artist (PDict [(PStr ''Band A'', PInt 1)]) ''Band B'' = Inr [artist_item [] ''Band B'']
   \<and> render_artist (PDict [(PStr ''Band A'', PInt 1)]) ''Band A''
       = Inr [artist_item ''background-color: #ff0000; color: #ffffff;'' ''Band A'']
   \<and> (\<exists>rank n. map_of [(PStr ''Band A'', PInt 1)] (PStr ''Band A'') = Some rank
         \<and> as_number rank = Some n)"
proof -
  let ?kvs = "[(PStr ''Band A'', PInt 1)]"
  have g: "get_color_for_rank (PInt 1) = Inr (Some ''#ff0000'', Some ''#ffffff'')"
    by code_simp
  have r: "render_artist (PDict ?kvs) ''Band A''
      = Inr [artist_item ''background-color: #ff0000; color: #ffffff;'' ''Band A'']"
    using g by (simp add: render_artist_def style_of_def)
  have 1: "render_artist (PDict ?kvs) ''Band B'' = Inr [artist_item [] ''Band B'']"
    using artist_style [of ?kvs "''Band B''"] by simp
  have 2: "\<exists>rank n. map_of ?kvs (PStr ''Band A'') = Some rank \<and> as_number rank = Some n"
    using artist_style [of ?kvs "''Band A''"] r by blast
  from 1 r 2 show ?thesis by blast
qed

lemma time_sort_key_eq:
  "time_sort_key t = Inr k \<longleftrightarrow> (\<exists>h. leading_hour t = Inr h \<and> k = (if h < 5 then h + 24 else h))"
  by (cases "leading_hour t") (auto simp add: time_sort_key_def)

text \<open>What \<open>sorted\<close> with a key returns: a stable sort of its argument.\<close>

lemma sorted_by_key_spec:
  assumes "sorted_by_key k xs = Inr ys"
  defines "key \<equiv> \<lambda>x. case k x of Inr v \<Rightarrow> v | Inl e \<Rightarrow> 0"
  shows "mset ys = mset xs" and "sorted (map key ys)"
    and "filter (\<lambda>x. key x = c) ys = filter (\<lambda>x. key x = c) xs"
proof -
  from assms(1) obtain ks where ks: "list_all2 (\<lambda>x y. k x = Inr y) xs ks"
    and ys: "ys = map snd (sort_key fst (zip ks xs))"
    by (auto simp add: sorted_by_key_def bind_exn_eq_Inr map_exn_eq_Inr)
  have len: "length ks = length xs" using ks by (simp add: list_all2_lengthD)
  have pair: "fst p = key (snd p)" if "p \<in> set (zip ks xs)" for p
  proof -
    from that obtain i where i: "i < length xs" and p: "p = (ks ! i, xs ! i)"
      using len by (auto simp add: set_zip)
    from ks i have "k (xs ! i) = Inr (ks ! i)" by (simp add: list_all2_conv_all_nth)
    then show ?thesis by (simp add: p key_def)
  qed
  have "mset ys = mset (map snd (zip ks xs))" by (simp add: ys)
  also have "\<dots> = mset xs" using len by simp
  finally show "mset ys = mset xs" .
  have "map key ys = map fst (sort_key fst (zip ks xs))"
    unfolding ys using pair by (simp add: comp_def)
  then show "sorted (map key ys)" by simp
  have "filter (\<lambda>x. key x = c) ys
      = map snd (filter (\<lambda>p. key (snd p) = c) (sort_key fst (zip ks xs)))"
    by (simp add: ys filter_map comp_def)
  also have "filter (\<lambda>p. key (snd p) = c) (sort_key fst (zip ks xs))
      = filter (\<lambda>p. fst p = c) (sort_key fst (zip ks xs))"
    by (rule filter_cong) (use pair in auto)
  also have "\<dots> = filter (\<lambda>p. fst p = c) (zip ks xs)" by (rule sort_key_stable)
  also have "\<dots> = filter (\<lambda>p. key (snd p) = c) (zip ks xs)"
    by (rule filter_cong) (use pair in auto)
  also have "map snd \<dots> = filter (\<lambda>x. key x = c) (map snd (zip ks xs))"
    by (simp add: filter_map comp_def)
  also have "map snd (zip ks xs) = xs" using len by simp
  finally show "filter (\<lambda>x. key x = c) ys = filter (\<lambda>x. key x = c) xs" .
qed

text \<open>
  C6, as the claim states it, fails on the tie-break: two labels with the same hour are
  not put in the order of the label strings; they keep the order of the input.
\<close>

theorem equal_hours_keep_input_order:
  "day_rows [(''20:30'', []), (''20:00'', [])] = Inr [''20:30'', ''20:00'']"
  by code_simp

text \<open>
  C6, amended. When every label of a day has a leading integer hour, the rows of the day
  are its labels (each once), in ascending order of the key, which is the hour, plus 24
  when the hour is below 5; labels with equal keys keep the order in which the day lists
  them (the sort is stable; label strings are not compared).
\<close>

theorem rows_sorted_by_hour:
  assumes "\<forall>t \<in> set (map fst day_events). \<exists>h. leading_hour t = Inr h"
  shows "\<exists>times. day_rows day_events = Inr times
           \<and> mset times = mset (map fst day_events)
           \<and> sorted (map key_of times)
           \<and> (\<forall>k. filter (\<lambda>t. key_of t = k) times
                    = filter (\<lambda>t. key_of t = k) (map fst day_events))
           \<and> (\<forall>t \<in> set times. \<exists>h. leading_hour t = Inr h
                 \<and> key_of t = (if h < 5 then h + 24 else h))"
proof -
  have "\<forall>t \<in> set (map fst day_events). \<exists>k. time_sort_key t = Inr k"
    using assms by (simp add: time_sort_key_eq)
  then obtain ks where "map_exn time_sort_key (map fst day_events) = Inr ks"
    using map_exn_total by blast
  then obtain times where t: "day_rows day_events = Inr times"
    by (simp add: day_rows_def sorted_by_key_def)
  then have s: "sorted_by_key time_sort_key (map fst day_events) = Inr times"
    by (simp add: day_rows_def)
  have k: "key_of = (\<lambda>x. case time_sort_key x of Inr v \<Rightarrow> v | Inl e \<Rightarrow> 0)"
    by (simp add: key_of_def fun_eq_iff)
  have m: "mset times = mset (map fst day_events)" by (rule sorted_by_key_spec(1) [OF s])
  have "set times = set (map fst day_events)" using m by (rule mset_eq_setD)
  moreover have "\<exists>h. leading_hour t = Inr h \<and> key_of t = (if h < 5 then h + 24 else h)"
    if "t \<in> set (map fst day_events)" for t
  proof -
    from assms that obtain h where h: "leading_hour t = Inr h" by blast
    then have "time_sort_key t = Inr (if h < 5 then h + 24 else h)"
      by (simp add: time_sort_key_eq)
    then show ?thesis using h by (simp add: key_of_def)
  qed
  ultimately have "\<forall>t \<in> set times. \<exists>h. leading_hour t = Inr h
      \<and> key_of t = (if h < 5 then h + 24 else h)"
    by blast
  with t m sorted_by_key_spec(2) [OF s] sorted_by_key_spec(3) [OF s]
  show ?thesis unfolding k by blast
qed

theorem rows_sorted_by_hour_witness:
  "day_rows [(''23:00'', []), (''00:30'', []), (''20:00'', [])]
     = Inr [''20:00'', ''23:00'', ''00:30'']
   \<and> map key_of [''20:00'', ''23:00'', ''00:30''] = [20, 23, 24]"
proof -
  let ?d = "[(''23:00'', []), (''00:30'', []), (''20:00'', [])] :: day_events"
  have h: "leading_hour ''23:00'' = Inr 23" "leading_hour ''00:30'' = Inr 0"
    "leading_hour ''20:00'' = Inr 20"
    by code_simp+
  have "\<forall>t \<in> set (map fst ?d). \<exists>h. leading_hour t = Inr h" using h by simp
  from rows_sorted_by_hour [OF this] obtain times where t: "day_rows ?d = Inr times"
    and k: "\<forall>t \<in> set times. \<exists>h. leading_hour t = Inr h
              \<and> key_of t = (if h < 5 then h + 24 else h)"
    by blast
  have e: "day_rows ?d = Inr [''20:00'', ''23:00'', ''00:30'']" by code_simp
  with t have "times = [''20:00'', ''23:00'', ''00:30'']" by simp
  with k h have "map key_of [''20:00'', ''23:00'', ''00:30''] = [20, 23, 24]" by auto
  with e show ?thesis by simp
qed

lemma venue_to_events_lookup:
  "map_of (venue_to_events venues evs) v =
     (if v \<in> set venues then Some (map artist (filter (\<lambda>e. venue e = v) evs)) else None)"
proof (induction evs arbitrary: v rule: rev_induct)
  case Nil
  show ?case
    by (auto simp add: venue_to_events_def map_of_map_restrict restrict_map_def
        map_of_eq_None_iff image_iff)
next
  case (snoc e evs)
  have step: "venue_to_events venues (evs @ [e]) =
      (case map_of (venue_to_events venues evs) (venue e) of
         None \<Rightarrow> venue_to_events venues evs
       | Some as \<Rightarrow> AList.update (venue e) (as @ [artist e]) (venue_to_events venues evs))"
    unfolding venue_to_events_def by simp
  show ?case
    by (simp add: step snoc.IH update_conv' split: option.splits)
qed

lemma render_cell_empty: "render_cell rk [] = Inr [''<td></td>'']"
  by (simp add: render_cell_def)

lemma row_cells_spec:
  assumes "row_cells venues rk evs = Inr cells"
  shows "length cells = length venues"
    and "i < length venues \<Longrightarrow>
         render_cell rk (map artist (filter (\<lambda>e. venue e = venues ! i) evs)) = Inr (cells ! i)"
proof -
  from assms have l: "list_all2 (\<lambda>v c. render_cell rk
      (case map_of (venue_to_events venues evs) v of None \<Rightarrow> [] | Some as \<Rightarrow> as) = Inr c)
      venues cells"
    by (simp add: row_cells_def map_exn_eq_Inr)
  then show "length cells = length venues" by (simp add: list_all2_lengthD)
  assume i: "i < length venues"
  with l have "render_cell rk
      (case map_of (venue_to_events venues evs) (venues ! i) of None \<Rightarrow> [] | Some as \<Rightarrow> as)
      = Inr (cells ! i)"
    by (simp add: list_all2_conv_all_nth)
  then show "render_cell rk (map artist (filter (\<lambda>e. venue e = venues ! i) evs))
      = Inr (cells ! i)"
    using i by (simp add: venue_to_events_lookup)
qed

lemma all_venues_spec:
  "sorted (all_venues sch)" "distinct (all_venues sch)"
  "set (all_venues sch) = (\<Union>(day, de) \<in> set sch. \<Union>(t, evs) \<in> set de. venue ` set evs)"
proof -
  show "sorted (all_venues sch)" "distinct (all_venues sch)"
    by (simp_all add: all_venues_def)
  show "set (all_venues sch) = (\<Union>(day, de) \<in> set sch. \<Union>(t, evs) \<in> set de. venue ` set evs)"
    unfolding all_venues_def by (simp add: split_def)
qed


lemma render_row_spec:
  assumes "render_row venues rk de t = Inr row"
  shows "\<exists>evs cells. getitem de t = Inr evs
           \<and> row = [time_cell t] @ concat cells @ [''</tr>'']
           \<and> length cells = length venues
           \<and> (\<forall>i < length venues.
                 render_cell rk (map artist (filter (\<lambda>e. venue e = venues ! i) evs))
                   = Inr (cells ! i)
                 \<and> (venues ! i \<notin> venue ` set evs \<longrightarrow> cells ! i = [''<td></td>'']))"
proof -
  from assms obtain evs cells where e: "getitem de t = Inr evs"
    and c: "row_cells venues rk evs = Inr cells"
    and r: "row = [time_cell t] @ concat cells @ [''</tr>'']"
    by (auto simp add: render_row_def bind_exn_eq_Inr)
  have "render_cell rk (map artist (filter (\<lambda>e. venue e = venues ! i) evs)) = Inr (cells ! i)
      \<and> (venues ! i \<notin> venue ` set evs \<longrightarrow> cells ! i = [''<td></td>''])"
    if i: "i < length venues" for i
  proof (intro conjI impI)
    show 1: "render_cell rk (map artist (filter (\<lambda>e. venue e = venues ! i) evs))
        = Inr (cells ! i)"
      by (rule row_cells_spec(2) [OF c i])
    assume "venues ! i \<notin> venue ` set evs"
    then have "filter (\<lambda>e. venue e = venues ! i) evs = []"
      unfolding filter_empty_conv by (metis imageI)
    with 1 show "cells ! i = [''<td></td>'']" by (simp add: render_cell_empty)
  qed
  with e r row_cells_spec(1) [OF c] show ?thesis by blast
qed

lemma render_day_spec:
  assumes "render_day venues rk (day, de) = Inr ps"
  shows "\<exists>times rows. day_rows de = Inr times
           \<and> ps = [''<h2>'' @ day @ ''</h2>'', table_header venues] @ concat rows
                  @ [''</tbody></table>'']
           \<and> list_all2 (\<lambda>t row. render_row venues rk de t = Inr row) times rows"
  using assms by (auto simp add: render_day_def bind_exn_eq_Inr map_exn_eq_Inr)

text \<open>
  C7. The columns are the distinct venues of the whole schedule in ascending order of
  strings. Whenever the renderer returns, its parts are the head, then for every day of
  the schedule, in order, the heading, the header row over these same columns, the rows
  and the end of the table. Every row is the time cell followed by exactly one cell for
  each column: the cell that \<open>render_cell\<close> gives for the artists of the slot at that
  venue, which is \<open><td></td>\<close> when the venue has no event in the slot.
\<close>

theorem columns_global_and_constant:
  assumes "generate_html_parts sch rk = Inr parts"
  shows "sorted (all_venues sch) \<and> distinct (all_venues sch)
     \<and> set (all_venues sch)
         = (\<Union>(day, de) \<in> set sch. \<Union>(t, evs) \<in> set de. venue ` set evs)
     \<and> (\<exists>days. parts = [html_head] @ concat days @ [''</body></html>'']
          \<and> list_all2 (\<lambda>(day, de) ps. \<exists>times rows.
                day_rows de = Inr times
                \<and> ps = [''<h2>'' @ day @ ''</h2>'', table_header (all_venues sch)]
                       @ concat rows @ [''</tbody></table>'']
                \<and> list_all2 (\<lambda>t row. \<exists>evs cells.
                      getitem de t = Inr evs
                      \<and> row = [time_cell t] @ concat cells @ [''</tr>'']
                      \<and> length cells = length (all_venues sch)
                      \<and> (\<forall>i < length (all_venues sch).
                            render_cell rk
                              (map artist (filter (\<lambda>e. venue e = all_venues sch ! i) evs))
                              = Inr (cells ! i)
                            \<and> (all_venues sch ! i \<notin> venue ` set evs
                                 \<longrightarrow> cells ! i = [''<td></td>''])))
                    times rows)
              sch days)"
    (is "_ \<and> _ \<and> _ \<and> (\<exists>days. _ \<and> list_all2 ?day_ok sch days)")
proof -
  from assms obtain days
    where d: "list_all2 (\<lambda>x ps. render_day (all_venues sch) rk x = Inr ps) sch days"
      and p: "parts = [html_head] @ concat days @ [''</body></html>'']"
    by (auto simp add: generate_html_parts_def bind_exn_eq_Inr map_exn_eq_Inr)
  have "?day_ok x ps" if r: "render_day (all_venues sch) rk x = Inr ps" for x ps
  proof -
    obtain day de where x: "x = (day, de)" by (cases x)
    from render_day_spec [OF r [unfolded x]] obtain times rows
      where t: "day_rows de = Inr times"
        and ps: "ps = [''<h2>'' @ day @ ''</h2>'', table_header (all_venues sch)] @ concat rows
                  @ [''</tbody></table>'']"
        and l: "list_all2 (\<lambda>t row. render_row (all_venues sch) rk de t = Inr row) times rows"
      by blast
    have l': "list_all2 (\<lambda>t row. \<exists>evs cells.
                      getitem de t = Inr evs
                      \<and> row = [time_cell t] @ concat cells @ [''</tr>'']
                      \<and> length cells = length (all_venues sch)
                      \<and> (\<forall>i < length (all_venues sch).
                            render_cell rk
                              (map artist (filter (\<lambda>e. venue e = all_venues sch ! i) evs))
                              = Inr (cells ! i)
                            \<and> (all_venues sch ! i \<notin> venue ` set evs
                                 \<longrightarrow> cells ! i = [''<td></td>''])))
                    times rows"
      using l by (rule list_all2_mono) (rule render_row_spec)
    show ?thesis unfolding x prod.case
      by (intro exI conjI) (rule t, rule ps, rule l')
  qed
  with d have l: "list_all2 ?day_ok sch days" by (rule list_all2_mono)
  show ?thesis
  proof (intro conjI)
    show "sorted (all_venues sch)" by (rule all_venues_spec)
    show "distinct (all_venues sch)" by (rule all_venues_spec)
    show "set (all_venues sch)
        = (\<Union>(day, de) \<in> set sch. \<Union>(t, evs) \<in> set de. venue ` set evs)"
      by (rule all_venues_spec)
    show "\<exists>days. parts = [html_head] @ concat days @ [''</body></html>'']
        \<and> list_all2 ?day_ok sch days"
      by (intro exI conjI) (rule p, rule l)
  qed
qed


theorem columns_global_and_constant_witness:
  "generate_html_parts
     [(''Fri'', [(''20:00'', [\<lparr>artist = ''A'', venue = ''Hall''\<rparr>])]),
      (''Sat'', [(''21:00'', [\<lparr>artist = ''B'', venue = ''Bar''\<rparr>])])] (PDict [])
   = Inr [html_head,
          ''<h2>Fri</h2>'', table_header [''Bar'', ''Hall''],
          time_cell ''20:00'', ''<td></td>'',
          ''<td><ul>'', artist_item [] ''A'', ''</ul></td>'', ''</tr>'', ''</tbody></table>'',
          ''<h2>Sat</h2>'', table_header [''Bar'', ''Hall''],
          time_cell ''21:00'', ''<td><ul>'', artist_item [] ''B'', ''</ul></td>'',
          ''<td></td>'', ''</tr>'', ''</tbody></table>'',
          ''</body></html>'']
   \<and> sorted (all_venues
         [(''Fri'', [(''20:00'', [\<lparr>artist = ''A'', venue = ''Hall''\<rparr>])]),
          (''Sat'', [(''21:00'', [\<lparr>artist = ''B'', venue = ''Bar''\<rparr>])])])
   \<and> distinct (all_venues
         [(''Fri'', [(''20:00'', [\<lparr>artist = ''A'', venue = ''Hall''\<rparr>])]),
          (''Sat'', [(''21:00'', [\<lparr>artist = ''B'', venue = ''Bar''\<rparr>])])])"
proof -
  let ?sch = "[(''Fri'', [(''20:00'', [\<lparr>artist = ''A'', venue = ''Hall''\<rparr>])]),
      (''Sat'', [(''21:00'', [\<lparr>artist = ''B'', venue = ''Bar''\<rparr>])])]"
  have e: "generate_html_parts ?sch (PDict [])
   = Inr [html_head,
          ''<h2>Fri</h2>'', table_header [''Bar'', ''Hall''],
          time_cell ''20:00'', ''<td></td>'',
          ''<td><ul>'', artist_item [] ''A'', ''</ul></td>'', ''</tr>'', ''</tbody></table>'',
          ''<h2>Sat</h2>'', table_header [''Bar'', ''Hall''],
          time_cell ''21:00'', ''<td><ul>'', artist_item [] ''B'', ''</ul></td>'',
          ''<td></td>'', ''</tr>'', ''</tbody></table>'',
          ''</body></html>'']"
    by code_simp
  from columns_global_and_constant [OF e]
  have "sorted (all_venues ?sch) \<and> distinct (all_venues ?sch)" by blast
  with e show ?thesis by blast
qed

section \<open>Properties of the ranking store\<close>

lemma set_update_subset: "set (AList.update k v al) \<subseteq> insert (k, v) (set al)"
  by (induction al) auto

lemma ranked_entry_old: "list_all (ranked_entry old) old"
  by (auto simp add: list_all_iff ranked_entry_def)

lemma ranked_entry_update:
  assumes "list_all (ranked_entry old) cur" and "1 \<le> n" and "n \<le> 10"
  shows "list_all (ranked_entry old) (AList.update k (PInt n) cur)"
proof -
  have "ranked_entry old (k, PInt n)" using assms(2,3) by (simp add: ranked_entry_def)
  with assms(1) set_update_subset [of k "PInt n" cur] show ?thesis
    by (auto simp add: list_all_iff)
qed

lemma prompt_ranking_result:
  assumes "prompt_ranking a ins out = (Inr v, rest, out')"
  shows "v = PStr ''skipped'' \<or> (\<exists>n. v = PInt n \<and> 1 \<le> n \<and> n \<le> 10)"
  using assms
proof (induction ins arbitrary: out)
  case Nil
  then show ?case by simp
next
  case (Cons line ins)
  then show ?case
    by (auto simp add: Let_def split: if_splits sum.splits)
qed

lemma save_rankings_store:
  "snd (save_rankings dump ed r) = Content (case dump r of Inr d \<Rightarrow> d | Inl ex \<Rightarrow> ed)"
  by (simp add: save_rankings_def split: sum.splits)

lemma rank_artist_inv:
  assumes r: "rank_artist dump ed i n a s = (e, s')"
    and cur: "rankings s = PDict cur" and ok: "list_all (ranked_entry old) cur"
    and st: "store_ok dump ed old f0 (store s)"
  shows "\<exists>new. rankings s' = PDict new \<and> list_all (ranked_entry old) new
           \<and> store_ok dump ed old f0 (store s')"
proof -
  define out1 where "out1 = session_printed s
            @ [Info_separator, Info_artist (i + 1) n (name a) (country a),
               Info_playing (youtube_id a)]"
  define res where "res = (if youtube_id a = [] then (Inr (PStr ''skipped''), stdin s, out1)
             else prompt_ranking (name a) (stdin s) out1)"
  obtain v rest out2 where res: "res = (v, rest, out2)" by (cases res)
  define s1 where "s1 = s\<lparr>stdin := rest, session_printed := out2\<rparr>"
  have s1: "rankings s1 = PDict cur" "store s1 = store s" using cur by (simp_all add: s1_def)
  have unfold: "rank_artist dump ed i n a s =
      (case v of
           Inl e \<Rightarrow> (Some e, s1)
         | Inr ranking \<Rightarrow>
             if ranking \<noteq> PStr ''skipped'' then
               (case py_setitem (rankings s1) (PStr (name a)) ranking of
                  Inl e \<Rightarrow> (Some e, s1)
                | Inr rankings' \<Rightarrow>
                    (case save_rankings dump ed rankings' of
                       (Some e, f) \<Rightarrow> (Some e, s1\<lparr>rankings := rankings', store := f\<rparr>)
                     | (None, f) \<Rightarrow>
                         (None, s1\<lparr>rankings := rankings', store := f,
                                  session_printed := out2 @ [Info_saved (name a) ranking]\<rparr>)))
             else (None, s1))"
    using res unfolding rank_artist_def Let_def out1_def [symmetric] res_def [symmetric] s1_def
    by simp
  show ?thesis
  proof (cases v)
    case (Inl ex)
    with r unfold have "s' = s1" by simp
    with s1 ok st show ?thesis by simp
  next
    case (Inr ranking)
    show ?thesis
    proof (cases "ranking = PStr ''skipped''")
      case True
      with r unfold Inr have "s' = s1" by simp
      with s1 ok st show ?thesis by simp
    next
      case False
      have "v = Inr (PStr ''skipped'') \<or> (\<exists>m. v = Inr (PInt m) \<and> 1 \<le> m \<and> m \<le> 10)"
      proof (cases "youtube_id a = []")
        case True
        then show ?thesis using res by (simp add: res_def)
      next
        case False
        then have "prompt_ranking (name a) (stdin s) out1 = (Inr ranking, rest, out2)"
          using res Inr by (simp add: res_def)
        from prompt_ranking_result [OF this] show ?thesis using Inr by simp
      qed
      with False Inr obtain m where m: "ranking = PInt m" "1 \<le> m" "m \<le> 10" by auto
      define new where "new = AList.update (PStr (name a)) (PInt m) cur"
      have new: "list_all (ranked_entry old) new"
        unfolding new_def using ok m(2,3) by (rule ranked_entry_update)
      have set: "py_setitem (rankings s1) (PStr (name a)) ranking = Inr (PDict new)"
        by (simp add: s1 m new_def)
      obtain e2 f where sv: "save_rankings dump ed (PDict new) = (e2, f)"
        by (cases "save_rankings dump ed (PDict new)")
      have f: "f = Content (case dump (PDict new) of Inr d \<Rightarrow> d | Inl ex \<Rightarrow> ed)"
        using save_rankings_store [of dump ed "PDict new"] sv by simp
      have "rankings s' = PDict new \<and> store s' = f"
        using r unfold Inr False set sv by (cases e2) auto
      moreover have "store_ok dump ed old f0 f"
        unfolding store_ok_def using new sv by (metis snd_conv)
      ultimately show ?thesis using new by simp
    qed
  qed
qed

lemma rank_artists_inv:
  assumes "rank_artists dump ed i n arts s = (e, s')"
    and "rankings s = PDict cur" and "list_all (ranked_entry old) cur"
    and "store_ok dump ed old f0 (store s)"
  shows "\<exists>new. rankings s' = PDict new \<and> list_all (ranked_entry old) new
           \<and> store_ok dump ed old f0 (store s')"
  using assms
proof (induction arts arbitrary: i s cur)
  case Nil
  then show ?case by simp
next
  case (Cons a arts)
  obtain e1 s1 where r: "rank_artist dump ed i n a s = (e1, s1)"
    by (cases "rank_artist dump ed i n a s")
  from rank_artist_inv [OF r Cons.prems(2,3,4)] obtain mid
    where mid: "rankings s1 = PDict mid" "list_all (ranked_entry old) mid"
      "store_ok dump ed old f0 (store s1)"
    by blast
  show ?case
  proof (cases e1)
    case None
    with Cons.prems(1) r have "rank_artists dump ed (Suc i) n arts s1 = (e, s')" by simp
    from Cons.IH [OF this mid] show ?thesis .
  next
    case (Some ex)
    with Cons.prems(1) r have "s' = s1" by simp
    with mid show ?thesis by simp
  qed
qed


lemma ranked_entry_no_skip:
  assumes "PStr ''skipped'' \<notin> snd ` set old" and "list_all (ranked_entry old) new"
  shows "PStr ''skipped'' \<notin> snd ` set new"
proof
  assume "PStr ''skipped'' \<in> snd ` set new"
  then obtain k where k: "(k, PStr ''skipped'') \<in> set new" by auto
  with assms(2) have "ranked_entry old (k, PStr ''skipped'')" by (auto simp add: list_all_iff)
  then have "(k, PStr ''skipped'') \<in> set old" by (simp add: ranked_entry_def)
  with assms(1) show False by force
qed

text \<open>
  C8. \<open>yaml.dump\<close> and \<open>yaml.safe_load\<close> are PyYAML's; the hypothesis is that
  loading what they dump for a dictionary from strings to integers gives back the same
  mapping. Then saving such a dictionary with \<open>save_rankings\<close> and loading the file
  with \<open>load_rankings\<close> gives the same mapping, with no warning. And a ranking session
  only adds integer ranks from 1 to 10: every entry of the dictionary at its end is an
  entry it started with or such a rank, the file is untouched or holds the dump of a
  dictionary of such entries, and the string \<open>'skipped'\<close> is no value of it unless it
  was one at the start.
\<close>

theorem store_round_trip_and_no_skip:
  assumes lib: "\<forall>kvs. str_int_dict kvs \<longrightarrow>
      (\<exists>d kvs'. yaml_dump (PDict kvs) = Inr d \<and> yaml_safe_load d = Inr (PDict kvs')
         \<and> map_of kvs' = map_of kvs)"
  shows "(str_int_dict kvs \<longrightarrow>
           (\<exists>kvs'. load_rankings yaml_safe_load
                      (snd (save_rankings yaml_dump empty_doc (PDict kvs))) = (PDict kvs', [])
                    \<and> map_of kvs' = map_of kvs))
     \<and> (ranking_session yaml_dump empty_doc arts s = (e, s') \<and> rankings s = PDict old \<longrightarrow>
           (\<exists>new. rankings s' = PDict new \<and> list_all (ranked_entry old) new
              \<and> store_ok yaml_dump empty_doc old (store s) (store s')
              \<and> (PStr ''skipped'' \<notin> snd ` set old \<longrightarrow> PStr ''skipped'' \<notin> snd ` set new)))"
proof (intro conjI impI)
  assume "str_int_dict kvs"
  with lib obtain d kvs' where "yaml_dump (PDict kvs) = Inr d"
    "yaml_safe_load d = Inr (PDict kvs')" "map_of kvs' = map_of kvs"
    by blast
  then show "\<exists>kvs'. load_rankings yaml_safe_load
                      (snd (save_rankings yaml_dump empty_doc (PDict kvs))) = (PDict kvs', [])
                    \<and> map_of kvs' = map_of kvs"
    by (simp add: save_rankings_def load_rankings_def)
next
  assume a: "ranking_session yaml_dump empty_doc arts s = (e, s') \<and> rankings s = PDict old"
  obtain e1 s1 where r: "rank_artists yaml_dump empty_doc 0 (length arts) arts s = (e1, s1)"
    by (cases "rank_artists yaml_dump empty_doc 0 (length arts) arts s")
  have "store_ok yaml_dump empty_doc old (store s) (store s)" by (simp add: store_ok_def)
  from rank_artists_inv [OF r _ ranked_entry_old this] a obtain new
    where new: "rankings s1 = PDict new" "list_all (ranked_entry old) new"
      "store_ok yaml_dump empty_doc old (store s) (store s1)"
    by blast
  have "rankings s' = rankings s1 \<and> store s' = store s1"
    using a r by (cases e1) (auto simp add: ranking_session_def)
  with new ranked_entry_no_skip [OF _ new(2)]
  show "\<exists>new. rankings s' = PDict new \<and> list_all (ranked_entry old) new
              \<and> store_ok yaml_dump empty_doc old (store s) (store s')
              \<and> (PStr ''skipped'' \<notin> snd ` set old \<longrightarrow> PStr ''skipped'' \<notin> snd ` set new)"
    by auto
qed

theorem store_round_trip_and_no_skip_witness:
  "load_rankings Inr (snd (save_rankings Inr PNone (PDict [(PStr ''A'', PInt 5)])))
     = (PDict [(PStr ''A'', PInt 5)], [])
   \<and> ranking_session Inr PNone
        [\<lparr>name = ''A'', country = ''IS'', youtube_id = ''abc''\<rparr>,
         \<lparr>name = ''B'', country = ''IS'', youtube_id = ''abd''\<rparr>]
        \<lparr>rankings = PDict [(PStr ''Z'', PInt 3)], store = Absent, stdin = [''5'', ''s''],
         session_printed = []\<rparr>
     = (None,
        \<lparr>rankings = PDict [(PStr ''Z'', PInt 3), (PStr ''A'', PInt 5)],
         store = Content (PDict [(PStr ''Z'', PInt 3), (PStr ''A'', PInt 5)]),
         stdin = [],
         session_printed =
           [Info_separator, Info_artist 1 2 ''A'' ''IS'', Info_playing ''abc'',
            Info_saved ''A'' (PInt 5),
            Info_separator, Info_artist 2 2 ''B'' ''IS'', Info_playing ''abd'',
            Info_skipped ''B'', Info_session_complete]\<rparr>)
   \<and> PStr ''skipped'' \<notin> snd ` set [(PStr ''Z'', PInt 3), (PStr ''A'', PInt 5)]"
proof -
  let ?arts = "[\<lparr>name = ''A'', country = ''IS'', youtube_id = ''abc''\<rparr>,
         \<lparr>name = ''B'', country = ''IS'', youtube_id = ''abd''\<rparr>]"
  let ?s = "\<lparr>rankings = PDict [(PStr ''Z'', PInt 3)], store = Absent :: pyval disk_file,
         stdin = [''5'', ''s''], session_printed = []\<rparr>"
  let ?s' = "\<lparr>rankings = PDict [(PStr ''Z'', PInt 3), (PStr ''A'', PInt 5)],
         store = Content (PDict [(PStr ''Z'', PInt 3), (PStr ''A'', PInt 5)]),
         stdin = [],
         session_printed =
           [Info_separator, Info_artist 1 2 ''A'' ''IS'', Info_playing ''abc'',
            Info_saved ''A'' (PInt 5),
            Info_separator, Info_artist 2 2 ''B'' ''IS'', Info_playing ''abd'',
            Info_skipped ''B'', Info_session_complete]\<rparr>"
  have lib: "\<forall>kvs. str_int_dict kvs \<longrightarrow>
      (\<exists>d kvs'. (Inr :: pyval yaml_dump) (PDict kvs) = Inr d
         \<and> (Inr :: pyval yaml_safe_load) d = Inr (PDict kvs') \<and> map_of kvs' = map_of kvs)"
    by simp
  have d: "str_int_dict [(PStr ''A'', PInt 5)]" by (simp add: str_int_dict_def)
  have run: "ranking_session Inr PNone ?arts ?s = (None, ?s')" by code_simp
  note t = store_round_trip_and_no_skip [OF lib, of "[(PStr ''A'', PInt 5)]" PNone ?arts ?s
    None ?s' "[(PStr ''Z'', PInt 3)]"]
  from t d have 1: "load_rankings Inr (snd (save_rankings Inr PNone (PDict [(PStr ''A'', PInt 5)])))
     = (PDict [(PStr ''A'', PInt 5)], [])"
    by (simp add: save_rankings_def load_rankings_def)
  from t run have 2: "PStr ''skipped'' \<notin> snd ` set [(PStr ''Z'', PInt 3), (PStr ''A'', PInt 5)]"
    by simp
  from 1 run 2 show ?thesis by blast
qed

text \<open>
  C4. The claim: a ranking store that cannot be read or parsed is treated as empty, with
  a warning, and the renderer still writes its HTML. \<open>load_rankings\<close> of rank.py does
  so; \<open>main\<close> of schedule.py calls \<open>yaml.safe_load\<close> with no handler: on a store that
  PyYAML rejects the exception ends the run and no HTML is written.
\<close>

theorem malformed_store_aborts_renderer:
  "main_schedule (\<lambda>d. Inl YAMLError)
     (Content [''Friday\<newline>'', ''  20:00\<newline>'', ''    Band A (Hall)\<newline>''])
     (Content ''a: [1'')
   = \<lparr>run_printed = [Info_loading_rankings], html_file = None, raised = Some YAMLError\<rparr>
   \<and> load_rankings (\<lambda>d. Inl YAMLError) (Content ''a: [1'')
     = (PDict [], [Warning_rankings_not_loaded YAMLError])"
  by code_simp

end
